theory Spec2Isabelle
  imports Complex_Main "HOL-Library.Sublist"
begin

section \<open>Data model\<close>

text \<open>
  The program is a single Python module, \<^verbatim>\<open>main.py\<close>. Its functions print to standard
  output, write files and call libraries (\<^verbatim>\<open>requests\<close>, \<^verbatim>\<open>PIL\<close>, \<^verbatim>\<open>pyjxl\<close>,
  \<^verbatim>\<open>xml.etree\<close>, \<^verbatim>\<open>hashlib\<close>, \<^verbatim>\<open>urllib\<close>, the ScrapingBee client). The model passes
  the mutable part (files, directories, printed lines) explicitly as a \<open>world\<close> and takes
  the libraries as the fields of an \<open>env\<close>: each library call is a function of its
  arguments that either raises or returns.

  Python \<^verbatim>\<open>str\<close> and \<^verbatim>\<open>bytes\<close> values are both lists of 8-bit characters. Numbers
  (the \<^verbatim>\<open>int\<close> sizes of the raster decoders, the \<^verbatim>\<open>float\<close> sizes of the SVG parser)
  are exact rationals: rounding, infinities and NaN of IEEE floats are outside the model.
\<close>

type_synonym bytes = string

datatype py_exception =
    UnidentifiedImageError
  | ValueError string
  | OSError string
  | OtherException string

record metadata =
  meta_url :: string
  meta_format :: string
  meta_size :: "rat \<times> rat"

datatype file_content = Raw bytes | MetaJson metadata

datatype log_line =
    ErrorGettingSvgSize py_exception
  | Downloaded string rat rat string
  | MetadataSaved string
  | SkippedTooSmall string rat rat string
  | ErrorHandlingSvg string py_exception
  | ErrorHandlingJpegXl string py_exception
  | FormatNotRecognized string
  | ErrorHandlingImage string py_exception
  | FailedToDownload string int
  | ErrorDownloading string py_exception
  | SendingRequest
  | ResponseReceived int
  | ExtractedData
  | InvalidUrlSkipped string
  | FoundValidUrls nat
  | ProcessingImage string
  | SkippedNotImage string
  | ErrorValidating string py_exception
  | FailedToScrape int
  | ResponseText string
  | ErrorDuringScraping py_exception

record world =
  files :: "string \<rightharpoonup> file_content"
  dirs :: "string set"
  out :: "log_line list"

record response =
  status_code :: int
  header_content_type :: "string option"
  content :: bytes

record pil_image =
  img_size :: "int \<times> int"
  img_format :: string

record img_entry =
  img_src :: "string option"
  img_data_src :: "string option"

record bee_response =
  bee_status_code :: int
  bee_content :: bytes
  bee_text :: string

record env =
  str_encode_utf8 :: "string \<Rightarrow> bytes"
  hashlib_md5_hexdigest :: "bytes \<Rightarrow> string"
  os_getenv_api_key :: "string option"
  et_fromstring_attrib :: "bytes \<Rightarrow> py_exception + (string \<rightharpoonup> string)"
  py_float :: "string \<Rightarrow> py_exception + rat"
  pyjxl_decode_size :: "bytes \<Rightarrow> py_exception + (int \<times> int)"
  pil_open :: "bytes \<Rightarrow> py_exception + pil_image"
  requests_get :: "string \<Rightarrow> py_exception + response"
  requests_head :: "string \<Rightarrow> py_exception + response"
  open_error :: "string \<Rightarrow> py_exception option"
  makedirs_error :: "string \<Rightarrow> py_exception option"
  bee_get :: "string \<Rightarrow> string \<Rightarrow> py_exception + bee_response"
  json_loads_all_images :: "bytes \<Rightarrow> py_exception + img_entry list"
  urljoin :: "string \<Rightarrow> string \<Rightarrow> py_exception + string"

section \<open>Exceptions and effects\<close>

text \<open>
  A block of statements is a function from the world to a result and the world it leaves:
  \<open>Inl e\<close> when the block raised \<open>e\<close>, with the effects made before the raise kept.
\<close>

type_synonym 'a prog = "world \<Rightarrow> (py_exception + 'a) \<times> world"

definition emit :: "log_line \<Rightarrow> world \<Rightarrow> world" where
  "emit l w = w\<lparr>out := out w @ [l]\<rparr>"

definition say :: "log_line \<Rightarrow> unit prog" where
  "say l w = (Inr (), emit l w)"

definition seq :: "'a prog \<Rightarrow> ('a \<Rightarrow> 'b prog) \<Rightarrow> 'b prog" where
  "seq m f w = (case m w of (Inl e, w') \<Rightarrow> (Inl e, w') | (Inr a, w') \<Rightarrow> f a w')"

definition lift :: "py_exception + 'a \<Rightarrow> 'a prog" where
  "lift r w = (r, w)"

definition try_except :: "unit prog \<Rightarrow> (py_exception \<Rightarrow> world \<Rightarrow> world) \<Rightarrow> world \<Rightarrow> world" where
  "try_except body handler w =
     (case body w of (Inl e, w') \<Rightarrow> handler e w' | (Inr u, w') \<Rightarrow> w')"

text \<open>\<^verbatim>\<open>with open(name, mode) as f: f.write(...)\<close>: raises, or replaces the file.\<close>

definition write_file :: "env \<Rightarrow> string \<Rightarrow> file_content \<Rightarrow> unit prog" where
  "write_file E name c w =
     (case open_error E name of
        Some e \<Rightarrow> (Inl e, w)
      | None \<Rightarrow> (Inr (), w\<lparr>files := (files w)(name \<mapsto> c)\<rparr>))"

section \<open>String operations of the Python runtime\<close>

text \<open>\<^verbatim>\<open>needle in hay\<close> on strings.\<close>

fun str_in :: "string \<Rightarrow> string \<Rightarrow> bool" where
  "str_in needle [] = (needle = [])"
| "str_in needle (c # cs) = (prefix needle (c # cs) \<or> str_in needle cs)"

text \<open>\<^verbatim>\<open>s.replace(old, new)\<close>: every non-overlapping occurrence, left to right.\<close>

function py_replace :: "string \<Rightarrow> string \<Rightarrow> string \<Rightarrow> string" where
  "py_replace old new [] = (if old = [] then new else [])"
| "py_replace old new (c # cs) =
     (if old = [] then new @ c # py_replace old new cs
      else if prefix old (c # cs)
        then new @ py_replace old new (drop (length old) (c # cs))
        else c # py_replace old new cs)"
  by pat_completeness auto
termination
  by (relation "measure (\<lambda>(old, new, s). length s)") auto

definition is_space :: "char \<Rightarrow> bool" where
  "is_space c = (c \<in> set [CHR '' '', CHR 0x09, CHR 0x0A, CHR 0x0B, CHR 0x0C, CHR 0x0D,
                           CHR 0x1C, CHR 0x1D, CHR 0x1E, CHR 0x1F, CHR 0x85, CHR 0xA0])"

definition py_strip :: "string \<Rightarrow> string" where
  "py_strip s = rev (dropWhile is_space (rev (dropWhile is_space s)))"

text \<open>\<^verbatim>\<open>s.lower()\<close> on the ASCII letters (format names of the decoder are ASCII).\<close>

definition lower_char :: "char \<Rightarrow> char" where
  "lower_char c =
     (case map_of (zip ''ABCDEFGHIJKLMNOPQRSTUVWXYZ'' ''abcdefghijklmnopqrstuvwxyz'') c of
        Some d \<Rightarrow> d
      | None \<Rightarrow> c)"

definition py_lower :: "string \<Rightarrow> string" where
  "py_lower s = map lower_char s"

text \<open>\<^verbatim>\<open>os.path.join(a, b)\<close> of \<^verbatim>\<open>posixpath\<close>, for two components.\<close>

definition path_join :: "string \<Rightarrow> string \<Rightarrow> string" where
  "path_join a b =
     (if prefix ''/'' b then b
      else if a = [] \<or> last a = CHR ''/'' then a @ b
      else a @ ''/'' @ b)"

section \<open>Fingerprint\<close>

definition md5_hash :: "env \<Rightarrow> string \<Rightarrow> string" where
  "md5_hash E url = hashlib_md5_hexdigest E (str_encode_utf8 E url)"

section \<open>SVG size\<close>

text \<open>
  \<^verbatim>\<open>v.replace("px", "").replace("em", "").replace("%", "").strip() or "0"\<close>
\<close>

definition strip_units :: "string \<Rightarrow> string" where
  "strip_units v =
     (let t = py_strip (py_replace ''%'' [] (py_replace ''em'' [] (py_replace ''px'' [] v)))
      in if t = [] then ''0'' else t)"

definition attrib_get :: "(string \<rightharpoonup> string) \<Rightarrow> string \<Rightarrow> string \<Rightarrow> string" where
  "attrib_get attrib k d = (case attrib k of None \<Rightarrow> d | Some v \<Rightarrow> v)"

text \<open>The \<^verbatim>\<open>try\<close> block of \<^verbatim>\<open>get_svg_size\<close>.\<close>

definition get_svg_size_try :: "env \<Rightarrow> bytes \<Rightarrow> py_exception + (rat \<times> rat)" where
  "get_svg_size_try E c =
     (case et_fromstring_attrib E c of
        Inl e \<Rightarrow> Inl e
      | Inr attrib \<Rightarrow>
          (case py_float E (strip_units (attrib_get attrib ''width'' ''0'')) of
             Inl e \<Rightarrow> Inl e
           | Inr width \<Rightarrow>
               (case py_float E (strip_units (attrib_get attrib ''height'' ''0'')) of
                  Inl e \<Rightarrow> Inl e
                | Inr height \<Rightarrow>
                    Inr (if width \<noteq> 0 \<and> height \<noteq> 0 then (width, height) else (0, 0)))))"

definition get_svg_size :: "env \<Rightarrow> bytes \<Rightarrow> world \<Rightarrow> (rat \<times> rat) \<times> world" where
  "get_svg_size E c w =
     (case get_svg_size_try E c of
        Inl e \<Rightarrow> ((0, 0), emit (ErrorGettingSvgSize e) w)
      | Inr d \<Rightarrow> (d, w))"

section \<open>Handlers\<close>

definition handle_svg_try :: "env \<Rightarrow> string \<Rightarrow> bytes \<Rightarrow> string \<Rightarrow> int \<Rightarrow> unit prog" where
  "handle_svg_try E url response_content folder min_area w =
     (case get_svg_size E response_content w of
        ((width, height), w1) \<Rightarrow>
          if width * height \<ge> of_int min_area then
            (let img_hash = md5_hash E url;
                 extension = ''svg'';
                 filename = path_join folder (img_hash @ ''.'' @ extension);
                 meta = \<lparr>meta_url = url, meta_format = ''SVG'', meta_size = (width, height)\<rparr>;
                 metadata_filename = path_join folder (img_hash @ ''.json'')
             in seq (write_file E filename (Raw response_content)) (\<lambda>_.
                seq (say (Downloaded filename width height ''SVG'')) (\<lambda>_.
                seq (write_file E metadata_filename (MetaJson meta)) (\<lambda>_.
                say (MetadataSaved metadata_filename)))) w1)
          else say (SkippedTooSmall url width height ''SVG'') w1)"

definition handle_svg :: "env \<Rightarrow> string \<Rightarrow> bytes \<Rightarrow> string \<Rightarrow> int \<Rightarrow> world \<Rightarrow> world" where
  "handle_svg E url response_content folder min_area =
     try_except (handle_svg_try E url response_content folder min_area)
       (\<lambda>e. emit (ErrorHandlingSvg url e))"

definition handle_jpeg_xl_try :: "env \<Rightarrow> string \<Rightarrow> bytes \<Rightarrow> string \<Rightarrow> unit prog" where
  "handle_jpeg_xl_try E url response_content folder =
     (let img_hash = md5_hash E url;
          extension = ''jxl'';
          filename = path_join folder (img_hash @ ''.'' @ extension);
          metadata_filename = path_join folder (img_hash @ ''.json'')
      in seq (write_file E filename (Raw response_content)) (\<lambda>_.
         seq (lift (pyjxl_decode_size E response_content)) (\<lambda>(width, height).
         seq (say (Downloaded filename (of_int width) (of_int height) ''JPEG XL'')) (\<lambda>_.
         seq (write_file E metadata_filename
                (MetaJson \<lparr>meta_url = url, meta_format = ''JPEG XL'',
                           meta_size = (of_int width, of_int height)\<rparr>)) (\<lambda>_.
         say (MetadataSaved metadata_filename))))))"

definition handle_jpeg_xl :: "env \<Rightarrow> string \<Rightarrow> bytes \<Rightarrow> string \<Rightarrow> world \<Rightarrow> world" where
  "handle_jpeg_xl E url response_content folder =
     try_except (handle_jpeg_xl_try E url response_content folder)
       (\<lambda>e. emit (ErrorHandlingJpegXl url e))"

definition handle_generic_image_try ::
    "env \<Rightarrow> string \<Rightarrow> bytes \<Rightarrow> string \<Rightarrow> int \<Rightarrow> unit prog" where
  "handle_generic_image_try E url response_content folder min_area =
     seq (lift (pil_open E response_content)) (\<lambda>img.
       (case img_size img of
          (width, height) \<Rightarrow>
            if width * height \<ge> min_area then
              (let img_hash = md5_hash E url;
                   extension = py_lower (img_format img);
                   filename = path_join folder (img_hash @ ''.'' @ extension);
                   meta = \<lparr>meta_url = url, meta_format = img_format img,
                           meta_size = (of_int width, of_int height)\<rparr>;
                   metadata_filename = path_join folder (img_hash @ ''.json'')
               in seq (write_file E filename (Raw response_content)) (\<lambda>_.
                  seq (say (Downloaded filename (of_int width) (of_int height) (img_format img))) (\<lambda>_.
                  seq (write_file E metadata_filename (MetaJson meta)) (\<lambda>_.
                  say (MetadataSaved metadata_filename)))))
            else say (SkippedTooSmall url (of_int width) (of_int height) (img_format img))))"

definition handle_generic_image ::
    "env \<Rightarrow> string \<Rightarrow> bytes \<Rightarrow> string \<Rightarrow> int \<Rightarrow> world \<Rightarrow> world" where
  "handle_generic_image E url response_content folder min_area =
     try_except (handle_generic_image_try E url response_content folder min_area)
       (\<lambda>e. case e of
               UnidentifiedImageError \<Rightarrow> emit (FormatNotRecognized url)
             | _ \<Rightarrow> emit (ErrorHandlingImage url e))"

section \<open>Dispatch on the declared content type\<close>

definition headers_get_content_type :: "response \<Rightarrow> string" where
  "headers_get_content_type r = (case header_content_type r of None \<Rightarrow> [] | Some v \<Rightarrow> v)"

definition download_image_try :: "env \<Rightarrow> string \<Rightarrow> string \<Rightarrow> int \<Rightarrow> unit prog" where
  "download_image_try E url folder min_area =
     seq (lift (requests_get E url)) (\<lambda>response w.
       if status_code response = 200 then
         (let content_type = headers_get_content_type response in
          if str_in ''image/svg+xml'' content_type
            then (Inr (), handle_svg E url (content response) folder min_area w)
          else if str_in ''image/jxl'' content_type
            then (Inr (), handle_jpeg_xl E url (content response) folder w)
          else (Inr (), handle_generic_image E url (content response) folder min_area w))
       else say (FailedToDownload url (status_code response)) w)"

definition download_image :: "env \<Rightarrow> string \<Rightarrow> string \<Rightarrow> int \<Rightarrow> world \<Rightarrow> world" where
  "download_image E url folder min_area =
     try_except (download_image_try E url folder min_area)
       (\<lambda>e. emit (ErrorDownloading url e))"

section \<open>Acquisition driver\<close>

definition get_api_key :: "env \<Rightarrow> py_exception + string" where
  "get_api_key E =
     (case os_getenv_api_key E of
        None \<Rightarrow> Inl (ValueError ''SCRAPINGBEE_API_KEY not found in .env file'')
      | Some api_key \<Rightarrow>
          if api_key = [] then Inl (ValueError ''SCRAPINGBEE_API_KEY not found in .env file'')
          else Inr api_key)"

text \<open>\<^verbatim>\<open>img.get("src") or img.get("data-src")\<close>; \<open>None\<close> is an absent or null value.\<close>

definition py_or :: "string option \<Rightarrow> string option \<Rightarrow> string option" where
  "py_or a b = (case a of None \<Rightarrow> b | Some s \<Rightarrow> if s = [] then b else Some s)"

text \<open>
  The body of the first loop of \<^verbatim>\<open>scrape_images\<close>, for one extracted element: the
  list \<^verbatim>\<open>img_urls\<close> after it. It is not wrapped in a \<^verbatim>\<open>try\<close> of its own.
\<close>

definition collect_img_url ::
    "env \<Rightarrow> string \<Rightarrow> img_entry \<Rightarrow> string list \<Rightarrow> string list prog" where
  "collect_img_url E url img img_urls =
     (case py_or (img_src img) (img_data_src img) of
        None \<Rightarrow> lift (Inr img_urls)
      | Some src \<Rightarrow>
          if src = [] then lift (Inr img_urls)
          else seq (lift (urljoin E url src)) (\<lambda>full_url.
                 if \<not> prefix ''http'' full_url
                   then seq (say (InvalidUrlSkipped full_url)) (\<lambda>_. lift (Inr img_urls))
                 else lift (Inr (img_urls @ [full_url]))))"

fun collect_img_urls ::
    "env \<Rightarrow> string \<Rightarrow> img_entry list \<Rightarrow> string list \<Rightarrow> string list prog" where
  "collect_img_urls E url [] img_urls = lift (Inr img_urls)"
| "collect_img_urls E url (img # imgs) img_urls =
     seq (collect_img_url E url img img_urls) (collect_img_urls E url imgs)"

text \<open>The body of the second loop, for one URL: a \<^verbatim>\<open>try\<close> block and its handler.\<close>

definition process_img_url_try :: "env \<Rightarrow> string \<Rightarrow> string \<Rightarrow> int \<Rightarrow> unit prog" where
  "process_img_url_try E img_url output_folder min_area =
     seq (lift (requests_head E img_url)) (\<lambda>head_response.
       if status_code head_response = 200
          \<and> str_in ''image'' (headers_get_content_type head_response)
         then seq (say (ProcessingImage img_url)) (\<lambda>_ w.
                (Inr (), download_image E img_url output_folder min_area w))
       else say (SkippedNotImage img_url))"

definition process_img_url :: "env \<Rightarrow> string \<Rightarrow> string \<Rightarrow> int \<Rightarrow> world \<Rightarrow> world" where
  "process_img_url E img_url output_folder min_area =
     try_except (process_img_url_try E img_url output_folder min_area)
       (\<lambda>e. emit (ErrorValidating img_url e))"

fun process_img_urls :: "env \<Rightarrow> string list \<Rightarrow> string \<Rightarrow> int \<Rightarrow> world \<Rightarrow> world" where
  "process_img_urls E [] output_folder min_area w = w"
| "process_img_urls E (img_url # img_urls) output_folder min_area w =
     process_img_urls E img_urls output_folder min_area
       (process_img_url E img_url output_folder min_area w)"

text \<open>\<^verbatim>\<open>response.ok\<close> of \<^verbatim>\<open>requests\<close>: no 4xx or 5xx status.\<close>

definition response_ok :: "bee_response \<Rightarrow> bool" where
  "response_ok r = (\<not> (400 \<le> bee_status_code r \<and> bee_status_code r < 600))"

definition os_path_exists :: "world \<Rightarrow> string \<Rightarrow> bool" where
  "os_path_exists w p = (p \<in> dirs w \<or> files w p \<noteq> None)"

definition os_makedirs :: "env \<Rightarrow> string \<Rightarrow> unit prog" where
  "os_makedirs E p w =
     (case makedirs_error E p of
        Some e \<Rightarrow> (Inl e, w)
      | None \<Rightarrow> (Inr (), w\<lparr>dirs := insert p (dirs w)\<rparr>))"

definition scrape_images_try :: "env \<Rightarrow> string \<Rightarrow> string \<Rightarrow> string \<Rightarrow> int \<Rightarrow> unit prog" where
  "scrape_images_try E api_key url output_folder min_area =
     seq (say SendingRequest) (\<lambda>_.
     seq (lift (bee_get E api_key url)) (\<lambda>response.
     seq (say (ResponseReceived (bee_status_code response))) (\<lambda>_.
       if response_ok response then
         seq (lift (json_loads_all_images E (bee_content response))) (\<lambda>all_images.
         seq (say ExtractedData) (\<lambda>_.
         seq (collect_img_urls E url all_images []) (\<lambda>img_urls.
         seq (say (FoundValidUrls (length img_urls))) (\<lambda>_ w.
           (Inr (), process_img_urls E img_urls output_folder min_area w)))))
       else
         seq (say (FailedToScrape (bee_status_code response))) (\<lambda>_.
         say (ResponseText (bee_text response))))))"

text \<open>
  \<^verbatim>\<open>scrape_images\<close>: the directory is created and the key is read before the
  \<^verbatim>\<open>try\<close> block, so what they raise leaves the function.
\<close>

definition scrape_images :: "env \<Rightarrow> string \<Rightarrow> string \<Rightarrow> int \<Rightarrow> unit prog" where
  "scrape_images E url output_folder min_area =
     seq (\<lambda>w. if \<not> os_path_exists w output_folder then os_makedirs E output_folder w
               else (Inr (), w)) (\<lambda>_.
     seq (lift (get_api_key E)) (\<lambda>api_key w.
       (Inr (), try_except (scrape_images_try E api_key url output_folder min_area)
                  (\<lambda>e. emit (ErrorDuringScraping e)) w)))"

section \<open>Vocabulary of the statements\<close>

definition image_path :: "env \<Rightarrow> string \<Rightarrow> string \<Rightarrow> string \<Rightarrow> string" where
  "image_path E folder url extension = path_join folder (md5_hash E url @ ''.'' @ extension)"

definition metadata_path :: "env \<Rightarrow> string \<Rightarrow> string \<Rightarrow> string" where
  "metadata_path E folder url = path_join folder (md5_hash E url @ ''.json'')"

section \<open>A concrete environment\<close>

text \<open>
  The libraries at the inputs of the concrete runs below: four SVG documents, a JPEG XL
  stream, a PNG stream, an image stream of no pixels and a payload that no decoder accepts, served at nine URLs whose MD5
  digests are the true ones. Paths under \<^verbatim>\<open>/readonly/\<close> can be neither created nor written.
\<close>

definition svg_neg :: bytes where
  \<open>svg_neg = ''<svg xmlns="http://www.w3.org/2000/svg" width="-300" height="-200"/>''\<close>

definition svg_nosize :: bytes where
  \<open>svg_nosize = ''<svg xmlns="http://www.w3.org/2000/svg"/>''\<close>

definition svg_logo :: bytes where
  \<open>svg_logo = ''<svg xmlns="http://www.w3.org/2000/svg" width="300" height="200"/>''\<close>

definition svg_icon :: bytes where
  \<open>svg_icon = ''<svg xmlns="http://www.w3.org/2000/svg" width="100px" height="100px"/>''\<close>

definition garbage :: bytes where
  "garbage = ''not an image''"

definition jxl_small :: bytes where
  "jxl_small = ''(a JPEG XL codestream of 10x10 pixels)''"

definition png_photo :: bytes where
  "png_photo = ''(a PNG stream of 800x600 pixels)''"

definition gif_empty :: bytes where
  "gif_empty = ''(an image stream whose header declares 0x0 pixels)''"

definition demo_digests :: "(bytes \<times> string) list" where
  "demo_digests =
     [(''http://example.com/small.jxl'', ''3ed7506a3a6dc63f0370c85acd18cab9''),
      (''http://example.com/broken.jxl'', ''4a6de479720e89398c65f444ae1d82f3''),
      (''http://example.com/neg.svg'', ''c0557e75d13bda106d2d69ca51ffc109''),
      (''http://example.com/nosize.svg'', ''4c0c7f506dda6b079a69cad299eff0da''),
      (''http://example.com/logo.svg'', ''bc7125a7faada3f03353b17a7ed6f847''),
      (''http://example.com/icon.svg'', ''806fd649fe5aaff0324c7abe993d74c1''),
      (''http://example.com/photo.png'', ''90b101cecec4ab1712349ba16b4e76b5''),
      (''http://example.com/corrupt.png'', ''742f9de25862d94b942caa2e7fc697c5''),
      (''http://down.example.com/x.png'', ''4bb91999cba2743cefb2fba5c7b4a3bf'')]"

definition demo_attribs :: "(bytes \<times> (string \<times> string) list) list" where
  "demo_attribs =
     [(svg_neg, [(''width'', ''-300''), (''height'', ''-200'')]),
      (svg_nosize, []),
      (svg_logo, [(''width'', ''300''), (''height'', ''200'')]),
      (svg_icon, [(''width'', ''100px''), (''height'', ''100px'')])]"

definition demo_floats :: "(string \<times> rat) list" where
  "demo_floats =
     [(''0'', 0), (''-300'', - 300), (''-200'', - 200), (''300'', 300), (''200'', 200),
      (''100'', 100)]"

definition demo_responses :: "(string \<times> response) list" where
  "demo_responses =
     [(''http://example.com/small.jxl'',
         \<lparr>status_code = 200, header_content_type = Some ''image/jxl'', content = jxl_small\<rparr>),
      (''http://example.com/broken.jxl'',
         \<lparr>status_code = 200, header_content_type = Some ''image/jxl'', content = garbage\<rparr>),
      (''http://example.com/neg.svg'',
         \<lparr>status_code = 200, header_content_type = Some ''image/svg+xml'', content = svg_neg\<rparr>),
      (''http://example.com/nosize.svg'',
         \<lparr>status_code = 200, header_content_type = Some ''image/svg+xml'',
           content = svg_nosize\<rparr>),
      (''http://example.com/logo.svg'',
         \<lparr>status_code = 200, header_content_type = Some ''image/svg+xml; charset=utf-8'',
           content = svg_logo\<rparr>),
      (''http://example.com/icon.svg'',
         \<lparr>status_code = 200, header_content_type = Some ''image/svg+xml'', content = svg_icon\<rparr>),
      (''http://example.com/photo.png'',
         \<lparr>status_code = 200, header_content_type = Some ''image/png'', content = png_photo\<rparr>),
      (''http://example.com/corrupt.png'',
         \<lparr>status_code = 200, header_content_type = Some ''image/png'', content = garbage\<rparr>)]"

definition demo_lookup :: "('a \<times> 'b) list \<Rightarrow> 'a \<Rightarrow> py_exception + 'b" where
  "demo_lookup table k =
     (case map_of table k of
        None \<Rightarrow> Inl (OtherException ''not in the table'')
      | Some v \<Rightarrow> Inr v)"

definition demo_images :: "img_entry list" where
  "demo_images =
     [\<lparr>img_src = Some ''http://example.com/photo.png'', img_data_src = None\<rparr>,
      \<lparr>img_src = Some ''http://down.example.com/x.png'', img_data_src = None\<rparr>,
      \<lparr>img_src = None, img_data_src = Some ''http://example.com/logo.svg''\<rparr>]"

definition demo_env :: env where
  "demo_env =
     \<lparr>str_encode_utf8 = (\<lambda>s. s),
      hashlib_md5_hexdigest =
        (\<lambda>b. case map_of demo_digests b of
                None \<Rightarrow> ''d41d8cd98f00b204e9800998ecf8427e''
              | Some d \<Rightarrow> d),
      os_getenv_api_key = Some ''KEY'',
      et_fromstring_attrib =
        (\<lambda>b. case map_of demo_attribs b of
                None \<Rightarrow> Inl (OtherException ''ParseError: syntax error'')
              | Some kvs \<Rightarrow> Inr (map_of kvs)),
      py_float =
        (\<lambda>s. case map_of demo_floats s of
                None \<Rightarrow> Inl (ValueError ''could not convert string to float'')
              | Some x \<Rightarrow> Inr x),
      pyjxl_decode_size =
        (\<lambda>b. if b = jxl_small then Inr (10, 10) else Inl (OtherException ''decode failed'')),
      pil_open =
        (\<lambda>b. if b = png_photo then Inr \<lparr>img_size = (800, 600), img_format = ''PNG''\<rparr>
             else if b = gif_empty then Inr \<lparr>img_size = (0, 0), img_format = ''GIF''\<rparr>
             else Inl UnidentifiedImageError),
      requests_get = demo_lookup demo_responses,
      requests_head =
        (\<lambda>u. if u = ''http://down.example.com/x.png''
               then Inl (OtherException ''ConnectionError'')
             else demo_lookup demo_responses u),
      open_error =
        (\<lambda>p. if prefix ''/readonly/'' p then Some (OSError ''Permission denied'') else None),
      makedirs_error =
        (\<lambda>p. if prefix ''/readonly/'' p then Some (OSError ''Permission denied'') else None),
      bee_get =
        (\<lambda>k u. Inr \<lparr>bee_status_code = 200, bee_content = ''(extraction result)'',
                     bee_text = ''(extraction result)''\<rparr>),
      json_loads_all_images = (\<lambda>b. Inr demo_images),
      urljoin = (\<lambda>base u. Inr u)\<rparr>"

definition world0 :: world where
  "world0 = \<lparr>files = Map.empty, dirs = {}, out = []\<rparr>"


lemmas demo_simps =
  demo_env_def world0_def demo_lookup_def demo_responses_def demo_floats_def demo_attribs_def
  demo_digests_def svg_neg_def svg_nosize_def svg_logo_def svg_icon_def garbage_def
  jxl_small_def png_photo_def gif_empty_def demo_images_def

lemmas run_simps =
  download_image_def download_image_try_def handle_svg_def handle_svg_try_def
  handle_jpeg_xl_def handle_jpeg_xl_try_def handle_generic_image_def
  handle_generic_image_try_def get_svg_size_def get_svg_size_try_def attrib_get_def
  strip_units_def py_strip_def is_space_def py_lower_def lower_char_def path_join_def
  md5_hash_def headers_get_content_type_def try_except_def seq_def say_def lift_def emit_def
  write_file_def image_path_def metadata_path_def Let_def

section \<open>Properties of the handlers\<close>

text \<open>Measuring an SVG prints at most a line: it touches no file.\<close>

lemma get_svg_size_files: "files (snd (get_svg_size E c w)) = files w"
  by (simp add: get_svg_size_def emit_def split: sum.splits)

lemma handle_svg_reject:
  assumes "get_svg_size E c w = ((wd, ht), w1)" and "wd * ht < of_int m"
  shows "handle_svg E u c f m w = emit (SkippedTooSmall u wd ht ''SVG'') w1"
  using assms by (simp add: handle_svg_def handle_svg_try_def try_except_def say_def)


lemma handle_generic_image_reject:
  assumes "pil_open E c = Inr img" and "img_size img = (wd, ht)" and "wd * ht < m"
  shows "handle_generic_image E u c f m w =
           emit (SkippedTooSmall u (of_int wd) (of_int ht) (img_format img)) w"
  using assms
  by (simp add: handle_generic_image_def handle_generic_image_try_def try_except_def seq_def
      lift_def say_def)


lemma handle_generic_image_undecodable:
  assumes "pil_open E c = Inl e"
  shows "handle_generic_image E u c f m w =
           emit (case e of UnidentifiedImageError \<Rightarrow> FormatNotRecognized u
                 | _ \<Rightarrow> ErrorHandlingImage u e) w"
  using assms
  by (cases e)
     (simp_all add: handle_generic_image_def handle_generic_image_try_def try_except_def
       seq_def lift_def)

section \<open>Facts of the concrete environment\<close>

lemma demo_get_svg_size_logo: "get_svg_size demo_env svg_logo world0 = ((300, 200), world0)"
  by (simp add: run_simps demo_simps)

lemma demo_get_svg_size_nosize: "get_svg_size demo_env svg_nosize world0 = ((0, 0), world0)"
  by (simp add: run_simps demo_simps)

lemma demo_open_error_out: "open_error demo_env (CHR ''o'' # p) = None"
  by (simp add: demo_env_def)



lemma demo_pil_open_photo:
  "pil_open demo_env png_photo = Inr \<lparr>img_size = (800, 600), img_format = ''PNG''\<rparr>"
  by (simp add: demo_env_def)

lemma py_lower_PNG: "py_lower ''PNG'' = ''png''"
  by (simp add: py_lower_def lower_char_def)

lemma demo_requests_get:
  "requests_get demo_env ''http://example.com/logo.svg''
     = Inr \<lparr>status_code = 200, header_content_type = Some ''image/svg+xml; charset=utf-8'',
             content = svg_logo\<rparr>"
  "requests_get demo_env ''http://example.com/small.jxl''
     = Inr \<lparr>status_code = 200, header_content_type = Some ''image/jxl'', content = jxl_small\<rparr>"
  "requests_get demo_env ''http://example.com/photo.png''
     = Inr \<lparr>status_code = 200, header_content_type = Some ''image/png'', content = png_photo\<rparr>"
  by (simp_all add: demo_env_def demo_lookup_def demo_responses_def)

section \<open>The JPEG XL path\<close>

text \<open>
  Claim C1: every dispatch path performs classify, then filter, then persist, so that on
  the JPEG XL path the image bytes and the metadata sidecar are written only if
  \<open>width * height >= min_area\<close>, as on the vector and generic paths.

  \<^verbatim>\<open>handle_jpeg_xl\<close> takes no \<^verbatim>\<open>min_area\<close> and compares nothing with it, while
  \<^verbatim>\<open>handle_svg\<close> and \<^verbatim>\<open>handle_generic_image\<close> both do. The run below serves a JPEG XL
  image of 10 by 10 pixels with \<^verbatim>\<open>min_area = 50000\<close>: the image and its sidecar are
  written, and the run prints the two lines of a successful download.
\<close>

theorem handle_jpeg_xl_ignores_min_area:
  "requests_get demo_env ''http://example.com/small.jxl''
     = Inr \<lparr>status_code = 200, header_content_type = Some ''image/jxl'', content = jxl_small\<rparr>
   \<and> pyjxl_decode_size demo_env jxl_small = Inr (10, 10)
   \<and> (10 :: int) * 10 < 50000
   \<and> files (download_image demo_env ''http://example.com/small.jxl'' ''out'' 50000 world0)
        ''out/3ed7506a3a6dc63f0370c85acd18cab9.jxl'' = Some (Raw jxl_small)
   \<and> files (download_image demo_env ''http://example.com/small.jxl'' ''out'' 50000 world0)
        ''out/3ed7506a3a6dc63f0370c85acd18cab9.json''
        = Some (MetaJson \<lparr>meta_url = ''http://example.com/small.jxl'',
                           meta_format = ''JPEG XL'', meta_size = (10, 10)\<rparr>)
   \<and> out (download_image demo_env ''http://example.com/small.jxl'' ''out'' 50000 world0)
        = [Downloaded ''out/3ed7506a3a6dc63f0370c85acd18cab9.jxl'' 10 10 ''JPEG XL'',
           MetadataSaved ''out/3ed7506a3a6dc63f0370c85acd18cab9.json'']"
  by (simp add: run_simps demo_simps)

text \<open>
  Claim C2: on the JPEG XL path a payload that fails to decode is reported and skipped, and
  no file, neither image nor sidecar, is written.

  \<^verbatim>\<open>handle_jpeg_xl\<close> writes the payload to \<^verbatim>\<open><hash>.jxl\<close> before it calls the
  decoder, and its handler only prints. The run below serves a payload that the decoder
  rejects: the failure is printed and no sidecar is written, but the image file is there.
\<close>

theorem handle_jpeg_xl_decode_failure_leaves_file:
  "requests_get demo_env ''http://example.com/broken.jxl''
     = Inr \<lparr>status_code = 200, header_content_type = Some ''image/jxl'', content = garbage\<rparr>
   \<and> pyjxl_decode_size demo_env garbage = Inl (OtherException ''decode failed'')
   \<and> files (download_image demo_env ''http://example.com/broken.jxl'' ''out'' 50000 world0)
        ''out/4a6de479720e89398c65f444ae1d82f3.jxl'' = Some (Raw garbage)
   \<and> files (download_image demo_env ''http://example.com/broken.jxl'' ''out'' 50000 world0)
        ''out/4a6de479720e89398c65f444ae1d82f3.json'' = None
   \<and> out (download_image demo_env ''http://example.com/broken.jxl'' ''out'' 50000 world0)
        = [ErrorHandlingJpegXl ''http://example.com/broken.jxl''
             (OtherException ''decode failed'')]"
  by (simp add: run_simps demo_simps)

section \<open>The size filter\<close>



text \<open>
  Claim C5 says that a zero-area result never passes, for every non-negative
  \<open>min_area\<close>. With \<open>min_area = 0\<close> the comparison \<open>0 >= 0\<close> holds: an SVG without
  dimensions is measured as \<open>(0, 0)\<close> and stored.
\<close>

theorem zero_area_passes_zero_threshold_counterexample:
  "get_svg_size demo_env svg_nosize world0 = ((0, 0), world0)
   \<and> files (handle_svg demo_env ''http://example.com/nosize.svg'' svg_nosize ''out'' 0 world0)
        ''out/4c0c7f506dda6b079a69cad299eff0da.svg'' = Some (Raw svg_nosize)
   \<and> files (handle_svg demo_env ''http://example.com/nosize.svg'' svg_nosize ''out'' 0 world0)
        ''out/4c0c7f506dda6b079a69cad299eff0da.json''
        = Some (MetaJson \<lparr>meta_url = ''http://example.com/nosize.svg'', meta_format = ''SVG'',
                           meta_size = (0, 0)\<rparr>)"
  by (simp add: run_simps demo_simps)

text \<open>
  Claim C5, amended: for every positive \<open>min_area\<close>, a candidate whose measured area is
  zero is rejected on the vector and on the generic path and no file is written; a raster
  payload whose classification fails writes no file, whatever \<open>min_area\<close> is.
\<close>

theorem zero_area_rejected_by_positive_threshold:
  "(get_svg_size E c w = ((wd, ht), w1) \<and> wd * ht = 0 \<and> 0 < m \<longrightarrow>
      handle_svg E u c f m w = emit (SkippedTooSmall u wd ht ''SVG'') w1
      \<and> files (handle_svg E u c f m w) = files w)
   \<and> (pil_open E c = Inr img \<and> img_size img = (iw, ih) \<and> iw * ih = 0 \<and> 0 < m \<longrightarrow>
      handle_generic_image E u c f m w =
        emit (SkippedTooSmall u (of_int iw) (of_int ih) (img_format img)) w
      \<and> files (handle_generic_image E u c f m w) = files w)
   \<and> (pil_open E c = Inl e \<longrightarrow> files (handle_generic_image E u c f m w) = files w)"
proof (intro conjI impI)
  assume h: "get_svg_size E c w = ((wd, ht), w1) \<and> wd * ht = 0 \<and> 0 < m"
  then have "wd * ht < of_int m"
    by (simp only: of_int_0_less_iff)
  with h have r: "handle_svg E u c f m w = emit (SkippedTooSmall u wd ht ''SVG'') w1"
    by (intro handle_svg_reject) blast+
  then show "handle_svg E u c f m w = emit (SkippedTooSmall u wd ht ''SVG'') w1" .
  have "files w1 = files w"
    using get_svg_size_files [of E c w] h by simp
  then show "files (handle_svg E u c f m w) = files w"
    by (simp add: r emit_def)
next
  assume h: "pil_open E c = Inr img \<and> img_size img = (iw, ih) \<and> iw * ih = 0 \<and> 0 < m"
  then have "iw * ih < m"
    by (simp only:)
  with h have r: "handle_generic_image E u c f m w =
        emit (SkippedTooSmall u (of_int iw) (of_int ih) (img_format img)) w"
    by (intro handle_generic_image_reject) blast+
  then show "handle_generic_image E u c f m w =
        emit (SkippedTooSmall u (of_int iw) (of_int ih) (img_format img)) w" .
  show "files (handle_generic_image E u c f m w) = files w"
    by (simp add: r emit_def)
next
  assume "pil_open E c = Inl e"
  then show "files (handle_generic_image E u c f m w) = files w"
    by (simp add: handle_generic_image_undecodable emit_def)
qed

theorem zero_area_rejected_by_positive_threshold_witness:
  "get_svg_size demo_env svg_nosize world0 = ((0, 0), world0)
   \<and> handle_svg demo_env ''http://example.com/nosize.svg'' svg_nosize ''out'' 1 world0
       = emit (SkippedTooSmall ''http://example.com/nosize.svg'' 0 0 ''SVG'') world0
   \<and> files (handle_svg demo_env ''http://example.com/nosize.svg'' svg_nosize ''out'' 1 world0)
       = files world0
   \<and> pil_open demo_env gif_empty = Inr \<lparr>img_size = (0, 0), img_format = ''GIF''\<rparr>
   \<and> files (handle_generic_image demo_env ''http://example.com/empty.gif'' gif_empty ''out'' 1
        world0) = files world0
   \<and> pil_open demo_env garbage = Inl UnidentifiedImageError
   \<and> files (handle_generic_image demo_env ''http://example.com/corrupt.png'' garbage ''out'' 0
        world0) = files world0"
proof -
  have p1: "pil_open demo_env gif_empty = Inr \<lparr>img_size = (0, 0), img_format = ''GIF''\<rparr>"
    by (simp add: demo_env_def gif_empty_def png_photo_def)
  have p2: "pil_open demo_env garbage = Inl UnidentifiedImageError"
    by (simp add: demo_env_def gif_empty_def png_photo_def garbage_def)
  show ?thesis
    using
      zero_area_rejected_by_positive_threshold [where E = demo_env and c = svg_nosize
        and w = world0 and wd = 0 and ht = 0 and ?w1.0 = world0 and m = 1
        and u = "''http://example.com/nosize.svg''" and f = "''out''"]
      zero_area_rejected_by_positive_threshold [where E = demo_env and c = gif_empty
        and w = world0 and m = 1 and u = "''http://example.com/empty.gif''" and f = "''out''"
        and img = "\<lparr>img_size = (0, 0), img_format = ''GIF''\<rparr>" and iw = 0 and ih = 0]
      zero_area_rejected_by_positive_threshold [where E = demo_env and c = garbage
        and w = world0 and m = 0 and u = "''http://example.com/corrupt.png''"
        and f = "''out''" and e = UnidentifiedImageError]
    by (simp add: demo_get_svg_size_nosize p1 p2 emit_def)
qed

section \<open>Routing\<close>

text \<open>
  Claim C6: for a fetched response (status 200), the declared content type alone decides
  the route, in this order: if it contains \<^verbatim>\<open>image/svg+xml\<close> the vector handler gets the
  body, whatever the bytes are; else if it contains \<^verbatim>\<open>image/jxl\<close> the JPEG XL handler;
  otherwise the generic raster handler.
\<close>

theorem download_image_routing:
  assumes "requests_get E url = Inr r" and "status_code r = 200"
  shows "(str_in ''image/svg+xml'' (headers_get_content_type r) \<longrightarrow>
            download_image E url folder m w = handle_svg E url (content r) folder m w)
       \<and> (\<not> str_in ''image/svg+xml'' (headers_get_content_type r)
            \<and> str_in ''image/jxl'' (headers_get_content_type r) \<longrightarrow>
            download_image E url folder m w = handle_jpeg_xl E url (content r) folder w)
       \<and> (\<not> str_in ''image/svg+xml'' (headers_get_content_type r)
            \<and> \<not> str_in ''image/jxl'' (headers_get_content_type r) \<longrightarrow>
            download_image E url folder m w =
              handle_generic_image E url (content r) folder m w)"
  using assms
  by (simp add: download_image_def download_image_try_def try_except_def seq_def lift_def
      Let_def)

theorem download_image_routing_witness:
  "download_image demo_env ''http://example.com/logo.svg'' ''out'' 50000 world0
     = handle_svg demo_env ''http://example.com/logo.svg'' svg_logo ''out'' 50000 world0
   \<and> download_image demo_env ''http://example.com/small.jxl'' ''out'' 50000 world0
     = handle_jpeg_xl demo_env ''http://example.com/small.jxl'' jxl_small ''out'' world0
   \<and> download_image demo_env ''http://example.com/photo.png'' ''out'' 50000 world0
     = handle_generic_image demo_env ''http://example.com/photo.png'' png_photo ''out'' 50000
         world0"
  using
    download_image_routing [OF demo_requests_get(1), of "''out''" 50000 world0]
    download_image_routing [OF demo_requests_get(2), of "''out''" 50000 world0]
    download_image_routing [OF demo_requests_get(3), of "''out''" 50000 world0]
  by (simp add: headers_get_content_type_def)

section \<open>The SVG classifier\<close>







section \<open>Overwriting\<close>




lemma download_image_cases:
  "download_image E u f m w =
     (case requests_get E u of
        Inl e \<Rightarrow> emit (ErrorDownloading u e) w
      | Inr r \<Rightarrow>
          if status_code r = 200 then
            (if str_in ''image/svg+xml'' (headers_get_content_type r)
               then handle_svg E u (content r) f m w
             else if str_in ''image/jxl'' (headers_get_content_type r)
               then handle_jpeg_xl E u (content r) f w
             else handle_generic_image E u (content r) f m w)
          else emit (FailedToDownload u (status_code r)) w)"
  by (simp add: download_image_def download_image_try_def try_except_def seq_def lift_def
      say_def Let_def split: sum.splits)




section \<open>The fingerprint\<close>






section \<open>Collecting candidate URLs\<close>

text \<open>
  Claim C10: when an extracted element has a non-empty \<^verbatim>\<open>src\<close>, the candidate URL is
  formed from it and \<^verbatim>\<open>data-src\<close> is not consulted; when \<^verbatim>\<open>src\<close> is absent, null or
  empty, \<^verbatim>\<open>data-src\<close> takes its place; an element with neither yields no candidate.
\<close>

theorem src_preferred_over_data_src:
  "(s \<noteq> [] \<longrightarrow>
      collect_img_url E url \<lparr>img_src = Some s, img_data_src = d\<rparr> img_urls
        = collect_img_url E url \<lparr>img_src = Some s, img_data_src = None\<rparr> img_urls)
   \<and> (s \<noteq> [] \<and> urljoin E url s = Inr full_url \<and> prefix ''http'' full_url \<longrightarrow>
      collect_img_url E url \<lparr>img_src = Some s, img_data_src = d\<rparr> img_urls w
        = (Inr (img_urls @ [full_url]), w))
   \<and> (a = None \<or> a = Some [] \<longrightarrow>
      collect_img_url E url \<lparr>img_src = a, img_data_src = d\<rparr> img_urls
        = collect_img_url E url \<lparr>img_src = d, img_data_src = None\<rparr> img_urls)
   \<and> ((a = None \<or> a = Some []) \<and> (d = None \<or> d = Some []) \<longrightarrow>
      collect_img_url E url \<lparr>img_src = a, img_data_src = d\<rparr> img_urls w = (Inr img_urls, w))"
  by (auto simp: collect_img_url_def py_or_def seq_def lift_def split: option.splits)

theorem src_preferred_over_data_src_witness:
  "urljoin demo_env ''http://example.com/'' ''http://example.com/photo.png''
     = Inr ''http://example.com/photo.png''
   \<and> collect_img_url demo_env ''http://example.com/''
        \<lparr>img_src = Some ''http://example.com/photo.png'',
          img_data_src = Some ''http://example.com/logo.svg''\<rparr> [] world0
       = (Inr [''http://example.com/photo.png''], world0)
   \<and> collect_img_url demo_env ''http://example.com/''
        \<lparr>img_src = Some ''http://example.com/photo.png'',
          img_data_src = Some ''http://example.com/logo.svg''\<rparr> []
       = collect_img_url demo_env ''http://example.com/''
        \<lparr>img_src = Some ''http://example.com/photo.png'', img_data_src = None\<rparr> []
   \<and> collect_img_url demo_env ''http://example.com/''
        \<lparr>img_src = Some [], img_data_src = Some ''http://example.com/logo.svg''\<rparr> []
       = collect_img_url demo_env ''http://example.com/''
        \<lparr>img_src = Some ''http://example.com/logo.svg'', img_data_src = None\<rparr> []
   \<and> collect_img_url demo_env ''http://example.com/''
        \<lparr>img_src = None, img_data_src = Some []\<rparr> [] world0 = (Inr [], world0)"
proof -
  have j: "urljoin demo_env ''http://example.com/'' ''http://example.com/photo.png''
     = Inr ''http://example.com/photo.png''"
    by (simp add: demo_env_def)
  show ?thesis
    using
      src_preferred_over_data_src [where E = demo_env and url = "''http://example.com/''"
        and s = "''http://example.com/photo.png''"
        and d = "Some ''http://example.com/logo.svg''"
        and full_url = "''http://example.com/photo.png''" and img_urls = "[]" and w = world0
        and a = "Some []"]
      src_preferred_over_data_src [where E = demo_env and url = "''http://example.com/''"
        and s = "''http://example.com/photo.png''" and d = "Some []"
        and full_url = "''http://example.com/photo.png''" and img_urls = "[]" and w = world0
        and a = None]
    by (simp add: j collect_img_url_def py_or_def seq_def lift_def say_def)
qed

section \<open>Isolation of failures\<close>

text \<open>
  The second loop of \<^verbatim>\<open>scrape_images\<close> runs one candidate after the other; what a
  candidate leaves to the next is the world. The files a run leaves depend on the files it
  starts from, not on what was printed before.
\<close>

lemma process_img_urls_append:
  "process_img_urls E (xs @ ys) f m w = process_img_urls E ys f m (process_img_urls E xs f m w)"
  by (induction xs arbitrary: w) simp_all

lemma process_img_url_cases:
  "process_img_url E u f m w =
     (case requests_head E u of
        Inl e \<Rightarrow> emit (ErrorValidating u e) w
      | Inr r \<Rightarrow>
          if status_code r = 200 \<and> str_in ''image'' (headers_get_content_type r)
            then download_image E u f m (emit (ProcessingImage u) w)
          else emit (SkippedNotImage u) w)"
  by (simp add: process_img_url_def process_img_url_try_def try_except_def seq_def lift_def
      say_def split: sum.splits)

lemma handle_svg_files_cong:
  "files w = files w' \<Longrightarrow> files (handle_svg E u c f m w) = files (handle_svg E u c f m w')"
  by (auto simp: handle_svg_def handle_svg_try_def get_svg_size_def try_except_def seq_def
      say_def emit_def write_file_def Let_def split: sum.splits option.splits)

lemma handle_jpeg_xl_files_cong:
  "files w = files w' \<Longrightarrow> files (handle_jpeg_xl E u c f w) = files (handle_jpeg_xl E u c f w')"
  by (auto simp: handle_jpeg_xl_def handle_jpeg_xl_try_def try_except_def seq_def
      say_def lift_def emit_def write_file_def Let_def split: sum.splits option.splits)

lemma handle_generic_image_files_cong:
  "files w = files w' \<Longrightarrow>
     files (handle_generic_image E u c f m w) = files (handle_generic_image E u c f m w')"
  by (auto simp: handle_generic_image_def handle_generic_image_try_def try_except_def seq_def
      say_def lift_def emit_def write_file_def Let_def
      split: sum.splits option.splits prod.splits py_exception.splits)

lemma download_image_files_cong:
  assumes "files w = files w'"
  shows "files (download_image E u f m w) = files (download_image E u f m w')"
proof (cases "requests_get E u")
  case (Inl e)
  then show ?thesis
    using assms by (simp add: download_image_cases emit_def)
next
  case (Inr r)
  note svg = handle_svg_files_cong [OF assms, of E u "content r" f m]
  note jxl = handle_jpeg_xl_files_cong [OF assms, of E u "content r" f]
  note gen = handle_generic_image_files_cong [OF assms, of E u "content r" f m]
  show ?thesis
    using assms by (simp add: download_image_cases Inr svg jxl gen emit_def)
qed

lemma process_img_url_files_cong:
  assumes "files w = files w'"
  shows "files (process_img_url E u f m w) = files (process_img_url E u f m w')"
proof -
  have b: "files (emit l w) = files (emit l w')" for l
    using assms by (simp add: emit_def)
  note d = download_image_files_cong [OF b, of E u f m "ProcessingImage u"]
  show ?thesis
    by (cases "requests_head E u") (simp_all add: process_img_url_cases b d)
qed

lemma process_img_urls_files_cong:
  "files w = files w' \<Longrightarrow>
     files (process_img_urls E us f m w) = files (process_img_urls E us f m w')"
proof (induction us arbitrary: w w')
  case Nil
  then show ?case by simp
next
  case (Cons u us)
  show ?case
    by (simp add: Cons.IH [OF process_img_url_files_cong [OF Cons.prems]])
qed

lemma download_image_get_error:
  "requests_get E u = Inl e \<Longrightarrow> download_image E u f m w = emit (ErrorDownloading u e) w"
  by (simp add: download_image_cases)

lemma get_svg_size_parse_error:
  "et_fromstring_attrib E c = Inl e \<Longrightarrow>
     get_svg_size E c w = ((0, 0), emit (ErrorGettingSvgSize e) w)"
  by (simp add: get_svg_size_def get_svg_size_try_def)

lemma handle_jpeg_xl_decode_error:
  assumes "open_error E (image_path E f u ''jxl'') = None" and "pyjxl_decode_size E c = Inl e"
  shows "handle_jpeg_xl E u c f w =
           emit (ErrorHandlingJpegXl u e)
             (w\<lparr>files := (files w)(image_path E f u ''jxl'' \<mapsto> Raw c)\<rparr>)"
  using assms
  by (simp add: handle_jpeg_xl_def handle_jpeg_xl_try_def try_except_def seq_def lift_def
      write_file_def image_path_def Let_def)

lemma handle_jpeg_xl_write_error:
  assumes "open_error E (image_path E f u ''jxl'') = Some e"
  shows "handle_jpeg_xl E u c f w = emit (ErrorHandlingJpegXl u e) w"
  using assms
  by (simp add: handle_jpeg_xl_def handle_jpeg_xl_try_def try_except_def seq_def
      write_file_def image_path_def Let_def)

lemma handle_svg_write_error:
  assumes "get_svg_size E c w = ((wd, ht), w1)" and "of_int m \<le> wd * ht"
    and "open_error E (image_path E f u ''svg'') = Some e"
  shows "handle_svg E u c f m w = emit (ErrorHandlingSvg u e) w1"
  using assms
  by (simp add: handle_svg_def handle_svg_try_def try_except_def seq_def
      write_file_def image_path_def Let_def)

lemma handle_generic_image_write_error:
  assumes "pil_open E c = Inr img" and "img_size img = (wd, ht)" and "m \<le> wd * ht"
    and "open_error E (image_path E f u (py_lower (img_format img))) = Some e"
  shows "handle_generic_image E u c f m w =
           emit (case e of UnidentifiedImageError \<Rightarrow> FormatNotRecognized u
                 | _ \<Rightarrow> ErrorHandlingImage u e) w"
  using assms
  by (cases e)
     (simp_all add: handle_generic_image_def handle_generic_image_try_def try_except_def
       seq_def lift_def write_file_def image_path_def Let_def)

lemma scrape_images_raises_iff:
  "fst (scrape_images E url f m w) = Inl e \<longleftrightarrow>
     (\<not> os_path_exists w f \<and> makedirs_error E f = Some e)
     \<or> ((os_path_exists w f \<or> makedirs_error E f = None) \<and> get_api_key E = Inl e)"
proof (cases "os_path_exists w f")
  case True
  then show ?thesis
    by (cases "get_api_key E") (simp_all add: scrape_images_def seq_def lift_def)
next
  case False
  show ?thesis
  proof (cases "makedirs_error E f")
    case None
    with False show ?thesis
      by (cases "get_api_key E")
         (simp_all add: scrape_images_def seq_def lift_def os_makedirs_def)
  next
    case (Some x)
    with False show ?thesis
      by (auto simp: scrape_images_def seq_def os_makedirs_def)
  qed
qed

lemma get_api_key_raises_iff:
  "get_api_key E = Inl e \<longleftrightarrow>
     (os_getenv_api_key E = None \<or> os_getenv_api_key E = Some [])
     \<and> e = ValueError ''SCRAPINGBEE_API_KEY not found in .env file''"
  by (auto simp: get_api_key_def split: option.splits)

lemma process_img_url_head_error:
  "requests_head E u = Inl e \<Longrightarrow> process_img_url E u f m w = emit (ErrorValidating u e) w"
  by (simp add: process_img_url_cases)

lemma process_img_urls_skip_failed:
  assumes "requests_head E u = Inl e"
  shows "files (process_img_urls E (xs @ u # ys) f m w)
           = files (process_img_urls E (xs @ ys) f m w)"
proof -
  have "files (process_img_url E u f m (process_img_urls E xs f m w))
          = files (process_img_urls E xs f m w)"
    by (simp add: process_img_url_head_error [OF assms] emit_def)
  then have "files (process_img_urls E ys f m
                 (process_img_url E u f m (process_img_urls E xs f m w)))
               = files (process_img_urls E ys f m (process_img_urls E xs f m w))"
    by (rule process_img_urls_files_cong)
  then show ?thesis
    by (simp add: process_img_urls_append)
qed

lemma demo_image_path_readonly:
  "image_path demo_env ''/readonly/out'' ''http://example.com/logo.svg'' ''svg''
     = ''/readonly/out/bc7125a7faada3f03353b17a7ed6f847.svg''"
  "image_path demo_env ''/readonly/out'' ''http://example.com/photo.png'' ''png''
     = ''/readonly/out/90b101cecec4ab1712349ba16b4e76b5.png''"
  "image_path demo_env ''/readonly/out'' ''http://example.com/small.jxl'' ''jxl''
     = ''/readonly/out/3ed7506a3a6dc63f0370c85acd18cab9.jxl''"
  "image_path demo_env ''out'' ''http://example.com/broken.jxl'' ''jxl''
     = ''out/4a6de479720e89398c65f444ae1d82f3.jxl''"
  by (simp_all add: image_path_def path_join_def md5_hash_def demo_env_def demo_digests_def)

lemma demo_open_error_readonly:
  "open_error demo_env (''/readonly/'' @ p) = Some (OSError ''Permission denied'')"
  by (simp add: demo_env_def)

text \<open>
  Claim C7 says that nothing escapes as an unhandled fault except the missing credential.
  \<^verbatim>\<open>os.makedirs\<close> is called before the \<^verbatim>\<open>try\<close> block of \<^verbatim>\<open>scrape_images\<close>: with the
  key present and an output directory that cannot be created, its error leaves the
  function.
\<close>

theorem makedirs_failure_escapes_counterexample:
  "os_getenv_api_key demo_env = Some ''KEY''
   \<and> get_api_key demo_env = Inr ''KEY''
   \<and> makedirs_error demo_env ''/readonly/out'' = Some (OSError ''Permission denied'')
   \<and> scrape_images demo_env ''http://example.com/'' ''/readonly/out'' 50000 world0
       = (Inl (OSError ''Permission denied''), world0)"
  by (simp add: scrape_images_def seq_def lift_def os_makedirs_def os_path_exists_def
      get_api_key_def demo_env_def world0_def)

text \<open>
  Claim C7, amended: failures are isolated per candidate. For every sequence of candidates,
  the loop handles each candidate in the world its predecessors left, and the files it
  stores do not depend on what they printed; an error raised while handling one candidate
  (a probe or a fetch that raises, markup that does not parse, a payload that does not
  decode, a file that cannot be written) is caught and printed by the handler around it, so
  that a candidate whose probe raises leaves the files of the run as if it were not in the
  list. \<^verbatim>\<open>scrape_images\<close> raises in two cases only: the output directory is missing and
  cannot be created, or the credential is missing.
\<close>

theorem failures_isolated_per_candidate:
  "process_img_urls E (xs @ u # ys) f m w
     = process_img_urls E ys f m (process_img_url E u f m (process_img_urls E xs f m w))
   \<and> (files w = files w' \<longrightarrow>
        files (process_img_urls E ys f m w) = files (process_img_urls E ys f m w'))
   \<and> (requests_head E u = Inl e \<longrightarrow>
        process_img_url E u f m w = emit (ErrorValidating u e) w
        \<and> files (process_img_urls E (xs @ u # ys) f m w)
            = files (process_img_urls E (xs @ ys) f m w))
   \<and> (requests_get E u = Inl e \<longrightarrow> download_image E u f m w = emit (ErrorDownloading u e) w)
   \<and> (et_fromstring_attrib E c = Inl e \<longrightarrow>
        get_svg_size E c w = ((0, 0), emit (ErrorGettingSvgSize e) w))
   \<and> (pil_open E c = Inl e \<longrightarrow>
        handle_generic_image E u c f m w =
          emit (case e of UnidentifiedImageError \<Rightarrow> FormatNotRecognized u
                | _ \<Rightarrow> ErrorHandlingImage u e) w)
   \<and> (open_error E (image_path E f u ''jxl'') = None \<and> pyjxl_decode_size E c = Inl e \<longrightarrow>
        handle_jpeg_xl E u c f w =
          emit (ErrorHandlingJpegXl u e)
            (w\<lparr>files := (files w)(image_path E f u ''jxl'' \<mapsto> Raw c)\<rparr>))
   \<and> (open_error E (image_path E f u ''jxl'') = Some e \<longrightarrow>
        handle_jpeg_xl E u c f w = emit (ErrorHandlingJpegXl u e) w)
   \<and> (get_svg_size E c w = ((wd, ht), w1) \<and> of_int m \<le> wd * ht
        \<and> open_error E (image_path E f u ''svg'') = Some e \<longrightarrow>
        handle_svg E u c f m w = emit (ErrorHandlingSvg u e) w1)
   \<and> (pil_open E c = Inr img \<and> img_size img = (iw, ih) \<and> m \<le> iw * ih
        \<and> open_error E (image_path E f u (py_lower (img_format img))) = Some e \<longrightarrow>
        handle_generic_image E u c f m w =
          emit (case e of UnidentifiedImageError \<Rightarrow> FormatNotRecognized u
                | _ \<Rightarrow> ErrorHandlingImage u e) w)
   \<and> (fst (scrape_images E url f m w) = Inl e \<longleftrightarrow>
        (\<not> os_path_exists w f \<and> makedirs_error E f = Some e)
        \<or> ((os_path_exists w f \<or> makedirs_error E f = None)
            \<and> (os_getenv_api_key E = None \<or> os_getenv_api_key E = Some [])
            \<and> e = ValueError ''SCRAPINGBEE_API_KEY not found in .env file''))"
proof (intro conjI impI)
  show "process_img_urls E (xs @ u # ys) f m w
     = process_img_urls E ys f m (process_img_url E u f m (process_img_urls E xs f m w))"
    by (simp add: process_img_urls_append)
next
  assume "files w = files w'"
  then show "files (process_img_urls E ys f m w) = files (process_img_urls E ys f m w')"
    by (rule process_img_urls_files_cong)
next
  assume "requests_head E u = Inl e"
  then show "process_img_url E u f m w = emit (ErrorValidating u e) w"
    by (rule process_img_url_head_error)
next
  assume "requests_head E u = Inl e"
  then show "files (process_img_urls E (xs @ u # ys) f m w)
            = files (process_img_urls E (xs @ ys) f m w)"
    by (rule process_img_urls_skip_failed)
next
  assume "requests_get E u = Inl e"
  then show "download_image E u f m w = emit (ErrorDownloading u e) w"
    by (rule download_image_get_error)
next
  assume "et_fromstring_attrib E c = Inl e"
  then show "get_svg_size E c w = ((0, 0), emit (ErrorGettingSvgSize e) w)"
    by (rule get_svg_size_parse_error)
next
  assume "pil_open E c = Inl e"
  then show "handle_generic_image E u c f m w =
          emit (case e of UnidentifiedImageError \<Rightarrow> FormatNotRecognized u
                | _ \<Rightarrow> ErrorHandlingImage u e) w"
    by (rule handle_generic_image_undecodable)
next
  assume "open_error E (image_path E f u ''jxl'') = None \<and> pyjxl_decode_size E c = Inl e"
  then show "handle_jpeg_xl E u c f w =
          emit (ErrorHandlingJpegXl u e)
            (w\<lparr>files := (files w)(image_path E f u ''jxl'' \<mapsto> Raw c)\<rparr>)"
    by (intro handle_jpeg_xl_decode_error) simp_all
next
  assume "open_error E (image_path E f u ''jxl'') = Some e"
  then show "handle_jpeg_xl E u c f w = emit (ErrorHandlingJpegXl u e) w"
    by (rule handle_jpeg_xl_write_error)
next
  assume "get_svg_size E c w = ((wd, ht), w1) \<and> of_int m \<le> wd * ht
        \<and> open_error E (image_path E f u ''svg'') = Some e"
  then show "handle_svg E u c f m w = emit (ErrorHandlingSvg u e) w1"
    by (intro handle_svg_write_error [where wd = wd and ht = ht]) simp_all
next
  assume "pil_open E c = Inr img \<and> img_size img = (iw, ih) \<and> m \<le> iw * ih
        \<and> open_error E (image_path E f u (py_lower (img_format img))) = Some e"
  then show "handle_generic_image E u c f m w =
          emit (case e of UnidentifiedImageError \<Rightarrow> FormatNotRecognized u
                | _ \<Rightarrow> ErrorHandlingImage u e) w"
    by (intro handle_generic_image_write_error [where img = img and wd = iw and ht = ih])
       simp_all
next
  show "fst (scrape_images E url f m w) = Inl e \<longleftrightarrow>
        (\<not> os_path_exists w f \<and> makedirs_error E f = Some e)
        \<or> ((os_path_exists w f \<or> makedirs_error E f = None)
            \<and> (os_getenv_api_key E = None \<or> os_getenv_api_key E = Some [])
            \<and> e = ValueError ''SCRAPINGBEE_API_KEY not found in .env file'')"
    by (simp only: scrape_images_raises_iff get_api_key_raises_iff)
qed

theorem failures_isolated_per_candidate_witness:
  "requests_head demo_env ''http://down.example.com/x.png''
     = Inl (OtherException ''ConnectionError'')
   \<and> process_img_url demo_env ''http://down.example.com/x.png'' ''out'' 50000 world0
       = emit (ErrorValidating ''http://down.example.com/x.png''
                 (OtherException ''ConnectionError'')) world0
   \<and> files (process_img_urls demo_env
               [''http://example.com/photo.png'', ''http://down.example.com/x.png'',
                ''http://example.com/logo.svg''] ''out'' 50000 world0)
       = files (process_img_urls demo_env
               [''http://example.com/photo.png'', ''http://example.com/logo.svg'']
               ''out'' 50000 world0)
   \<and> files (process_img_urls demo_env
               [''http://example.com/photo.png'', ''http://down.example.com/x.png'',
                ''http://example.com/logo.svg''] ''out'' 50000 world0)
         ''out/90b101cecec4ab1712349ba16b4e76b5.png'' = Some (Raw png_photo)
   \<and> files (process_img_urls demo_env
               [''http://example.com/photo.png'', ''http://down.example.com/x.png'',
                ''http://example.com/logo.svg''] ''out'' 50000 world0)
         ''out/bc7125a7faada3f03353b17a7ed6f847.svg'' = Some (Raw svg_logo)
   \<and> download_image demo_env ''http://example.com/gone.png'' ''out'' 50000 world0
       = emit (ErrorDownloading ''http://example.com/gone.png''
                 (OtherException ''not in the table'')) world0
   \<and> get_svg_size demo_env garbage world0
       = ((0, 0), emit (ErrorGettingSvgSize (OtherException ''ParseError: syntax error''))
                    world0)
   \<and> handle_generic_image demo_env ''http://example.com/corrupt.png'' garbage ''out'' 50000
         world0
       = emit (FormatNotRecognized ''http://example.com/corrupt.png'') world0
   \<and> handle_jpeg_xl demo_env ''http://example.com/broken.jxl'' garbage ''out'' world0
       = emit (ErrorHandlingJpegXl ''http://example.com/broken.jxl''
                 (OtherException ''decode failed''))
           (world0\<lparr>files := (files world0)
              (''out/4a6de479720e89398c65f444ae1d82f3.jxl'' \<mapsto> Raw garbage)\<rparr>)
   \<and> handle_jpeg_xl demo_env ''http://example.com/small.jxl'' jxl_small ''/readonly/out''
         world0
       = emit (ErrorHandlingJpegXl ''http://example.com/small.jxl''
                 (OSError ''Permission denied'')) world0
   \<and> handle_svg demo_env ''http://example.com/logo.svg'' svg_logo ''/readonly/out'' 50000
         world0
       = emit (ErrorHandlingSvg ''http://example.com/logo.svg''
                 (OSError ''Permission denied'')) world0
   \<and> handle_generic_image demo_env ''http://example.com/photo.png'' png_photo
         ''/readonly/out'' 50000 world0
       = emit (ErrorHandlingImage ''http://example.com/photo.png''
                 (OSError ''Permission denied'')) world0
   \<and> fst (scrape_images demo_env ''http://example.com/'' ''/readonly/out'' 50000 world0)
       = Inl (OSError ''Permission denied'')"
proof -
  note t = failures_isolated_per_candidate
  have h1: "requests_head demo_env ''http://down.example.com/x.png''
     = Inl (OtherException ''ConnectionError'')"
    by (simp add: demo_env_def)
  have c1: "process_img_url demo_env ''http://down.example.com/x.png'' ''out'' 50000 world0
       = emit (ErrorValidating ''http://down.example.com/x.png''
                 (OtherException ''ConnectionError'')) world0
     \<and> files (process_img_urls demo_env
               ([''http://example.com/photo.png''] @ ''http://down.example.com/x.png''
                # [''http://example.com/logo.svg'']) ''out'' 50000 world0)
       = files (process_img_urls demo_env
               ([''http://example.com/photo.png''] @ [''http://example.com/logo.svg''])
               ''out'' 50000 world0)"
    using h1
      t [where E = demo_env and u = "''http://down.example.com/x.png''"
          and e = "OtherException ''ConnectionError''" and f = "''out''" and m = 50000
          and w = world0 and xs = "[''http://example.com/photo.png'']"
          and ys = "[''http://example.com/logo.svg'']"]
    by blast
  have c2: "files (process_img_urls demo_env
               [''http://example.com/photo.png'', ''http://example.com/logo.svg'']
               ''out'' 50000 world0)
         ''out/90b101cecec4ab1712349ba16b4e76b5.png'' = Some (Raw png_photo)
     \<and> files (process_img_urls demo_env
               [''http://example.com/photo.png'', ''http://example.com/logo.svg'']
               ''out'' 50000 world0)
         ''out/bc7125a7faada3f03353b17a7ed6f847.svg'' = Some (Raw svg_logo)"
    by (simp add: process_img_url_def process_img_url_try_def run_simps demo_simps)
  have h3: "requests_get demo_env ''http://example.com/gone.png''
     = Inl (OtherException ''not in the table'')"
    by (simp add: demo_env_def demo_lookup_def demo_responses_def)
  have c3: "download_image demo_env ''http://example.com/gone.png'' ''out'' 50000 world0
       = emit (ErrorDownloading ''http://example.com/gone.png''
                 (OtherException ''not in the table'')) world0"
    using h3
      t [where E = demo_env and u = "''http://example.com/gone.png''"
          and e = "OtherException ''not in the table''" and f = "''out''" and m = 50000
          and w = world0]
    by blast
  have h4: "et_fromstring_attrib demo_env garbage
     = Inl (OtherException ''ParseError: syntax error'')"
    by (simp add: demo_simps)
  have c4: "get_svg_size demo_env garbage world0
       = ((0, 0), emit (ErrorGettingSvgSize (OtherException ''ParseError: syntax error''))
                    world0)"
    using h4
      t [where E = demo_env and c = garbage
          and e = "OtherException ''ParseError: syntax error''" and w = world0]
    by blast
  have h5: "pil_open demo_env garbage = Inl UnidentifiedImageError"
    by (simp add: demo_simps)
  have c5: "handle_generic_image demo_env ''http://example.com/corrupt.png'' garbage ''out''
         50000 world0
       = emit (FormatNotRecognized ''http://example.com/corrupt.png'') world0"
    using h5
      t [where E = demo_env and c = garbage and u = "''http://example.com/corrupt.png''"
          and e = UnidentifiedImageError and f = "''out''" and m = 50000 and w = world0]
    by simp
  have h6: "open_error demo_env
              (image_path demo_env ''out'' ''http://example.com/broken.jxl'' ''jxl'') = None
            \<and> pyjxl_decode_size demo_env garbage = Inl (OtherException ''decode failed'')"
    by (simp add: demo_image_path_readonly demo_open_error_out) (simp add: demo_simps)
  have c6: "handle_jpeg_xl demo_env ''http://example.com/broken.jxl'' garbage ''out'' world0
       = emit (ErrorHandlingJpegXl ''http://example.com/broken.jxl''
                 (OtherException ''decode failed''))
           (world0\<lparr>files := (files world0)
              (image_path demo_env ''out'' ''http://example.com/broken.jxl'' ''jxl''
                 \<mapsto> Raw garbage)\<rparr>)"
    using h6
      t [where E = demo_env and c = garbage and u = "''http://example.com/broken.jxl''"
          and e = "OtherException ''decode failed''" and f = "''out''" and w = world0]
    by blast
  have h7: "open_error demo_env
              (image_path demo_env ''/readonly/out'' ''http://example.com/small.jxl'' ''jxl'')
            = Some (OSError ''Permission denied'')"
    using demo_open_error_readonly [of "''out/3ed7506a3a6dc63f0370c85acd18cab9.jxl''"]
    by (simp add: demo_image_path_readonly)
  have c7: "handle_jpeg_xl demo_env ''http://example.com/small.jxl'' jxl_small
         ''/readonly/out'' world0
       = emit (ErrorHandlingJpegXl ''http://example.com/small.jxl''
                 (OSError ''Permission denied'')) world0"
    using h7
      t [where E = demo_env and c = jxl_small and u = "''http://example.com/small.jxl''"
          and e = "OSError ''Permission denied''" and f = "''/readonly/out''" and w = world0]
    by blast
  have h8: "get_svg_size demo_env svg_logo world0 = ((300, 200), world0)
            \<and> of_int 50000 \<le> (300 :: rat) * 200
            \<and> open_error demo_env
              (image_path demo_env ''/readonly/out'' ''http://example.com/logo.svg'' ''svg'')
            = Some (OSError ''Permission denied'')"
    using demo_open_error_readonly [of "''out/bc7125a7faada3f03353b17a7ed6f847.svg''"]
    by (simp add: demo_image_path_readonly demo_get_svg_size_logo)
  have c8: "handle_svg demo_env ''http://example.com/logo.svg'' svg_logo ''/readonly/out''
         50000 world0
       = emit (ErrorHandlingSvg ''http://example.com/logo.svg''
                 (OSError ''Permission denied'')) world0"
    using h8
      t [where E = demo_env and c = svg_logo and u = "''http://example.com/logo.svg''"
          and e = "OSError ''Permission denied''" and f = "''/readonly/out''" and w = world0
          and m = 50000 and wd = 300 and ht = 200 and ?w1.0 = world0]
    by blast
  have h9: "pil_open demo_env png_photo = Inr \<lparr>img_size = (800, 600), img_format = ''PNG''\<rparr>
            \<and> img_size \<lparr>img_size = (800, 600), img_format = ''PNG''\<rparr> = (800, 600)
            \<and> (50000 :: int) \<le> 800 * 600
            \<and> open_error demo_env
              (image_path demo_env ''/readonly/out'' ''http://example.com/photo.png''
                 (py_lower (img_format \<lparr>img_size = (800, 600), img_format = ''PNG''\<rparr>)))
            = Some (OSError ''Permission denied'')"
    using demo_open_error_readonly [of "''out/90b101cecec4ab1712349ba16b4e76b5.png''"]
    by (simp add: demo_image_path_readonly demo_pil_open_photo py_lower_PNG)
  have c9: "handle_generic_image demo_env ''http://example.com/photo.png'' png_photo
         ''/readonly/out'' 50000 world0
       = emit (ErrorHandlingImage ''http://example.com/photo.png''
                 (OSError ''Permission denied'')) world0"
    using h9
      t [where E = demo_env and c = png_photo and u = "''http://example.com/photo.png''"
          and e = "OSError ''Permission denied''" and f = "''/readonly/out''" and w = world0
          and m = 50000 and img = "\<lparr>img_size = (800, 600), img_format = ''PNG''\<rparr>"
          and iw = 800 and ih = 600]
    by simp
  have h10: "\<not> os_path_exists world0 ''/readonly/out''
             \<and> makedirs_error demo_env ''/readonly/out'' = Some (OSError ''Permission denied'')"
    by (simp add: os_path_exists_def world0_def demo_env_def)
  have c10: "fst (scrape_images demo_env ''http://example.com/'' ''/readonly/out'' 50000
                world0) = Inl (OSError ''Permission denied'')"
    using h10
      t [where E = demo_env and url = "''http://example.com/''" and f = "''/readonly/out''"
          and m = 50000 and w = world0 and e = "OSError ''Permission denied''"]
    by blast
  show ?thesis
    using h1 c1 c2 c3 c4 c5 c6 c7 c8 c9 c10
    by (simp add: demo_image_path_readonly)
qed

end
